theory Spec2Isabelle
  imports Complex_Main "HOL-Library.Multiset"
begin

section \<open>The scoring engine of Distro-Analyzer (package score)\<close>

text \<open>
  A shallow embedding of \<^verbatim>\<open>src/score/engine.go\<close>, of the catalog type and the shipped
  catalog \<^verbatim>\<open>Top50Distros\<close>, and of the domain types of package \<^verbatim>\<open>profile\<close>.

  Conventions of the embedding.
  \<^item> Go's \<^verbatim>\<open>int\<close> is \<open>int\<close>: the counters of the dimension extractor move by at most 3 per
    table hit, so a 64-bit overflow would need a slice of more than \<open>2^60\<close> entries; the
    attributes of a catalog entry are documented as 0 to 10, and the differences the
    matcher takes of them do not wrap below \<open>2^62\<close> in magnitude.
  \<^item> Go's \<^verbatim>\<open>float64\<close> is idealised as \<open>real\<close>: \<^verbatim>\<open>math.Sqrt\<close> is \<open>sqrt\<close>, \<^verbatim>\<open>math.Log\<close> is \<open>ln\<close>,
    \<^verbatim>\<open>math.Pow(x, 2)\<close> is \<open>x\<^sup>2\<close>; rounding error is not modelled.
  \<^item> Go's \<^verbatim>\<open>string\<close> is \<open>string\<close> (a list of bytes), \<^verbatim>\<open>==\<close> is equality of the byte lists.
  \<^item> The types \<^verbatim>\<open>ExperienceLevel\<close>, \<^verbatim>\<open>FitCategory\<close> and \<^verbatim>\<open>Sentiment\<close> are Go string types and
    \<^verbatim>\<open>Trend\<close> is a Go int type, so they stay strings and an int here: values other than the
    declared constants are possible inputs.
  \<^item> \<^verbatim>\<open>strings.ToLower\<close> belongs to Go's standard library (it lower-cases every Unicode
    letter); the functions that call it take it as the parameter \<open>toLower\<close>.
    \<open>asciiToLower\<close> is its restriction to ASCII letters, used for concrete inputs.
  \<^item> The \<^verbatim>\<open>log.Printf\<close> calls and the \<^verbatim>\<open>Explanation\<close> text (\<^verbatim>\<open>buildExplanation\<close>) have no
    influence on any other field and are left out.
\<close>

subsection \<open>Package profile: domain types\<close>

type_synonym ExperienceLevel = string
type_synonym FitCategory = string
type_synonym Sentiment = string

definition ExpJunior :: ExperienceLevel where "ExpJunior = ''junior''"
definition ExpMid :: ExperienceLevel where "ExpMid = ''mid''"
definition ExpSenior :: ExperienceLevel where "ExpSenior = ''senior''"

definition FitStrong :: FitCategory where "FitStrong = ''strong_fit''"
definition FitPotential :: FitCategory where "FitPotential = ''potential''"
definition FitNone :: FitCategory where "FitNone = ''not_fit''"

record Signals =
  Topics :: "string list"
  Sentiment :: Sentiment
  ExperienceLevel :: ExperienceLevel
  Keywords :: "string list"
  TechStack :: "string list"

text \<open>\<^verbatim>\<open>profile.Result\<close> without its \<^verbatim>\<open>Explanation\<close>; the field \<^verbatim>\<open>Score\<close> is \<open>ScoreValue\<close> here,
  since \<open>Score\<close> names the engine's operation.\<close>

record Result =
  ScoreValue :: int
  Category :: FitCategory
  Confidence :: real

subsection \<open>Package score: catalog types\<close>

type_synonym Trend = int

definition TrendDown :: Trend where "TrendDown = -1"
definition TrendStable :: Trend where "TrendStable = 0"
definition TrendUp :: Trend where "TrendUp = 1"

record Distro =
  ID :: string
  Name :: string
  Rolling :: int
  Easy :: int
  DIY :: int
  Performance :: int
  DevFocus :: int
  Popularity :: int
  Trend :: Trend

record UserDimensions =
  RollingScore :: int
  DIYScore :: int
  PerformanceScore :: int
  DevScore :: int

record MatchResult =
  distro :: Distro
  matchScore :: real

record Engine =
  distros :: "Distro list"

record ScoreOutput =
  Result :: Result
  BestDistroID :: string
  BestDistroName :: string

definition NewEngine :: "Distro list \<Rightarrow> Engine" where
  "NewEngine ds = \<lparr>distros = ds\<rparr>"

text \<open>The zero values that Go gives to \<^verbatim>\<open>var best MatchResult\<close>.\<close>

definition zeroDistro :: Distro where
  "zeroDistro = \<lparr>ID = [], Name = [], Rolling = 0, Easy = 0, DIY = 0, Performance = 0,
     DevFocus = 0, Popularity = 0, Trend = 0\<rparr>"

definition zeroMatchResult :: MatchResult where
  "zeroMatchResult = \<lparr>distro = zeroDistro, matchScore = 0\<rparr>"

subsection \<open>Helpers: clamp, abs, the string functions\<close>

definition clamp :: "int \<Rightarrow> int \<Rightarrow> int \<Rightarrow> int" where
  "clamp v lo hi = (if v < lo then lo else if v > hi then hi else v)"

definition abs_go :: "int \<Rightarrow> int" where
  "abs_go x = (if x < 0 then - x else x)"

text \<open>\<^verbatim>\<open>strings.Contains(s, substr)\<close>: \<open>substr\<close> occurs in \<open>s\<close> as a contiguous run of bytes.\<close>

fun hasPrefix :: "string \<Rightarrow> string \<Rightarrow> bool" where
  "hasPrefix s [] = True"
| "hasPrefix [] (p # ps) = False"
| "hasPrefix (c # cs) (p # ps) = (c = p \<and> hasPrefix cs ps)"

fun Contains :: "string \<Rightarrow> string \<Rightarrow> bool" where
  "Contains [] substr = hasPrefix [] substr"
| "Contains (c # cs) substr = (hasPrefix (c # cs) substr \<or> Contains cs substr)"

definition asciiToLowerChar :: "char \<Rightarrow> char" where
  "asciiToLowerChar c =
     (let n = of_char c :: nat in if 65 \<le> n \<and> n \<le> 90 then char_of (n + 32) else c)"

definition asciiToLower :: "string \<Rightarrow> string" where
  "asciiToLower s = map asciiToLowerChar s"

subsection \<open>The dimension extractor\<close>

text \<open>Every \<^verbatim>\<open>for _, x := range xs { ... score ... }\<close> is a \<open>fold\<close> over the slice that
  threads \<open>score\<close>; the order of the loops and of the tests is the source's.\<close>

definition bleedingTech :: "string list" where
  "bleedingTech = [''rust'', ''mojo'', ''zig'', ''deno'', ''bun'']"

definition stableKeywords :: "string list" where
  "stableKeywords = [''production'', ''enterprise'', ''stable'', ''lts'']"

definition calculateRollingPreference :: "Signals \<Rightarrow> int" where
  "calculateRollingPreference signals =
     (let score = 5;
          score = fold (\<lambda>tech score.
                    fold (\<lambda>bleeding score. if tech = bleeding then score + 2 else score)
                      bleedingTech score)
                    (TechStack signals) score;
          score = (if ExperienceLevel signals = ExpSenior then score + 1 else score);
          score = fold (\<lambda>kw score.
                    fold (\<lambda>stable score. if kw = stable then score - 2 else score)
                      stableKeywords score)
                    (Keywords signals) score
      in clamp score 0 10)"

definition diyKeywords :: "string list" where
  "diyKeywords = [
     ''dotfiles'', ''rice'', ''customization'', ''tiling'', ''window manager'',
     ''kernel'', ''arch'', ''gentoo'', ''nixos'', ''low-level'', ''assembly'',
     ''hyprland'', ''sway'', ''i3'', ''awesome'', ''dwm'', ''qtile'', ''bspwm'',
     ''wayland'', ''x11'', ''compositor'', ''eww'', ''polybar'', ''waybar'', ''rofi'', ''wofi'',
     ''minimal'', ''minimalism'', ''void'', ''artix'', ''crux'', ''alpine'', ''kiss'',
     ''lfs'', ''linux from scratch'', ''custom kernel'', ''musl'', ''glibc hardening'',
     ''immutable'', ''atomic'', ''silverblue'', ''kinoite'', ''bazzite'', ''ublue'',
     ''home-manager'', ''flakes'', ''nix'', ''guix'',
     ''ricing'', ''unixporn'', ''gruvbox'', ''catppuccin'', ''tokyonight'']"

definition easyKeywords :: "string list" where
  "easyKeywords = [''beginner'', ''simple'', ''easy'', ''user-friendly'']"

definition scriptingLangs :: "string list" where
  "scriptingLangs = [''bash'', ''lua'', ''python'']"

text \<open>The first loop of \<^verbatim>\<open>calculateDIYPreference\<close>: the score after the keywords.\<close>

definition diyKeywordScore :: "Signals \<Rightarrow> int" where
  "diyKeywordScore signals =
     fold (\<lambda>kw score.
       let score = fold (\<lambda>diy score. if kw = diy then score + 3 else score) diyKeywords score;
           score = fold (\<lambda>easy score. if kw = easy then score - 2 else score) easyKeywords score
       in score)
       (Keywords signals) 5"

text \<open>The second loop: \<^verbatim>\<open>scriptCount\<close> after the tech stack.\<close>

definition scriptCount :: "Signals \<Rightarrow> int" where
  "scriptCount signals =
     fold (\<lambda>tech n.
       fold (\<lambda>script n. if tech = script then n + 1 else n) scriptingLangs n)
       (TechStack signals) 0"

definition calculateDIYPreference :: "Signals \<Rightarrow> int" where
  "calculateDIYPreference signals =
     (let score = diyKeywordScore signals;
          score = (if scriptCount signals \<ge> 2 then score + 2 else score)
      in clamp score 0 10)"

definition perfKeywords :: "string list" where
  "perfKeywords = [''gaming'', ''performance'', ''gpu'', ''vulkan'', ''shader'', ''godot'', ''unreal'']"

definition perfTech :: "string list" where
  "perfTech = [
     ''c'', ''c++'', ''rust'', ''vulkan'', ''opengl'', ''gpu'',
     ''cuda'', ''rocm'', ''opencl'', ''metal'',
     ''directx'', ''dx12'', ''webgpu'',
     ''assembly'', ''asm'', ''x86'', ''arm'', ''riscv'',
     ''hpc'', ''mpi'', ''openmp'', ''simd'', ''avx'', ''avx512'',
     ''zig'', ''c++20'', ''c++23'', ''cpp'',
     ''ispc'', ''halide'',
     ''game dev'', ''godot'', ''unreal'', ''unity'']"

definition calculatePerformanceNeed :: "Signals \<Rightarrow> int" where
  "calculatePerformanceNeed signals =
     (let score = 3;
          score = fold (\<lambda>kw score.
                    fold (\<lambda>perf score. if kw = perf then score + 2 else score)
                      perfKeywords score)
                    (Keywords signals) score;
          score = fold (\<lambda>tech score.
                    fold (\<lambda>perf score. if tech = perf then score + 1 else score)
                      perfTech score)
                    (TechStack signals) score
      in clamp score 0 10)"

definition devTech :: "string list" where
  "devTech = [
     ''c'', ''c++'', ''go'', ''rust'', ''python'', ''ruby'', ''javascript'', ''typescript'',
     ''java'', ''kotlin'', ''swift'', ''php'', ''perl'', ''shell'', ''bash'', ''lua'',
     ''docker'', ''kubernetes'', ''terraform'', ''ansible'', ''vagrant'', ''chef'', ''puppet'',
     ''jenkins'', ''gitlab'', ''github actions'', ''circleci'',
     ''aws'', ''gcp'', ''azure'', ''cloud'',
     ''git'', ''make'', ''cmake'', ''gradle'', ''maven'', ''npm'', ''yarn'', ''pip'']"

definition devKeywords :: "string list" where
  "devKeywords = [
     ''devops'', ''backend'', ''infrastructure'', ''sre'', ''platform'',
     ''rails'', ''web'', ''api'', ''microservices'', ''containers'', ''orchestration'',
     ''automation'', ''ci/cd'', ''deployment'', ''ansible'', ''kubernetes'', ''k8s'']"

definition criticalKeywords :: "string list" where
  "criticalKeywords = [''kernel'', ''ansible'', ''kubernetes'', ''k8s'', ''docker'', ''devops'']"

definition calculateDevFocus :: "(string \<Rightarrow> string) \<Rightarrow> Signals \<Rightarrow> int" where
  "calculateDevFocus toLower signals =
     (let score = 5;
          score = fold (\<lambda>kw score.
                    let kwLower = toLower kw in
                    fold (\<lambda>critical score. if Contains kwLower critical then score + 2 else score)
                      criticalKeywords score)
                    (Keywords signals) score;
          score = fold (\<lambda>tech score.
                    let techLower = toLower tech in
                    fold (\<lambda>dev score.
                        if techLower = dev \<or> Contains techLower dev then score + 1 else score)
                      devTech score)
                    (TechStack signals) score;
          score = fold (\<lambda>kw score.
                    let kwLower = toLower kw in
                    fold (\<lambda>dev score.
                        if kwLower = dev \<or> Contains kwLower dev then score + 1 else score)
                      devKeywords score)
                    (Keywords signals) score
      in clamp score 0 10)"

definition calculateDimensions :: "(string \<Rightarrow> string) \<Rightarrow> Engine \<Rightarrow> Signals \<Rightarrow> UserDimensions" where
  "calculateDimensions toLower e signals =
     \<lparr>RollingScore = calculateRollingPreference signals,
      DIYScore = calculateDIYPreference signals,
      PerformanceScore = calculatePerformanceNeed signals,
      DevScore = calculateDevFocus toLower signals\<rparr>"

subsection \<open>The matcher\<close>

definition maxDist :: real where "maxDist = 20"
definition alpha :: real where "alpha = 90 / 100"
definition beta :: real where "beta = 10 / 100"
definition maxPopularity :: real where "maxPopularity = 3790"

text \<open>The values that the body of the selection loop computes for one catalog entry, under
  the names of its local variables.\<close>

definition distance :: "UserDimensions \<Rightarrow> Distro \<Rightarrow> real" where
  "distance dims d =
     sqrt ((real_of_int (RollingScore dims - Rolling d))\<^sup>2 +
           (real_of_int (DIYScore dims - DIY d))\<^sup>2 +
           (real_of_int (PerformanceScore dims - Performance d))\<^sup>2 +
           (real_of_int (DevScore dims - DevFocus d))\<^sup>2)"

definition normDist :: "UserDimensions \<Rightarrow> Distro \<Rightarrow> real" where
  "normDist dims d =
     (let n = distance dims d / maxDist;
          n = (if n < 0 then 0 else n);
          n = (if n > 1 then 1 else n)
      in n)"

definition similarity :: "UserDimensions \<Rightarrow> Distro \<Rightarrow> real" where
  "similarity dims d = 1 - normDist dims d"

definition popNorm :: "Distro \<Rightarrow> real" where
  "popNorm d =
     (if Popularity d > 0 then
        (let p = ln (real_of_int (Popularity d) + 1) / ln (maxPopularity + 1);
             p = (if p < 0 then 0 else p);
             p = (if p > 1 then 1 else p)
         in p)
      else 0)"

definition trendMultiplier :: "Distro \<Rightarrow> real" where
  "trendMultiplier d =
     (if Trend d = TrendUp then 108 / 100
      else if Trend d = TrendDown then 97 / 100
      else 1)"

definition finalScore :: "UserDimensions \<Rightarrow> Distro \<Rightarrow> real" where
  "finalScore dims d = (alpha * similarity dims d + beta * popNorm d) * trendMultiplier d"

text \<open>One iteration of the selection loop on the pair \<open>(best, bestScore)\<close>.\<close>

definition matchStep ::
    "UserDimensions \<Rightarrow> Signals \<Rightarrow> Distro \<Rightarrow> MatchResult \<times> real \<Rightarrow> MatchResult \<times> real" where
  "matchStep dims signals d st =
     (if ExperienceLevel signals = ExpSenior \<and> Popularity d < 500 then st
      else if finalScore dims d > snd st
        then (\<lparr>distro = d, matchScore = finalScore dims d\<rparr>, finalScore dims d)
        else st)"

definition selectBest :: "Engine \<Rightarrow> UserDimensions \<Rightarrow> Signals \<Rightarrow> MatchResult" where
  "selectBest e dims signals =
     fst (fold (matchStep dims signals) (distros e) (zeroMatchResult, 0))"

text \<open>The penalties after the loop.\<close>

definition applyPenalties :: "UserDimensions \<Rightarrow> Signals \<Rightarrow> MatchResult \<Rightarrow> MatchResult" where
  "applyPenalties dims signals best =
     (if ExperienceLevel signals = ExpSenior then
        (let best = (if DevScore dims \<ge> 8 \<and> DevFocus (distro best) \<le> 7
                     then best\<lparr>matchScore := matchScore best * (85 / 100)\<rparr> else best);
             best = (if DIYScore dims \<ge> 8 \<and> Easy (distro best) \<ge> 9
                     then best\<lparr>matchScore := matchScore best * (90 / 100)\<rparr> else best)
         in best)
      else best)"

definition findBestMatch :: "Engine \<Rightarrow> UserDimensions \<Rightarrow> Signals \<Rightarrow> MatchResult" where
  "findBestMatch e dims signals = applyPenalties dims signals (selectBest e dims signals)"

subsection \<open>The score normalizer and the categorizer\<close>

text \<open>\<^verbatim>\<open>int(math.Round(x))\<close>: to the nearest integer, halves away from zero.\<close>

definition Round :: "real \<Rightarrow> int" where
  "Round x = (if x < 0 then - \<lfloor>- x + 1 / 2\<rfloor> else \<lfloor>x + 1 / 2\<rfloor>)"

definition baseScore :: "MatchResult \<Rightarrow> int" where
  "baseScore m = Round (matchScore m * 100)"

definition adjustment :: "MatchResult \<Rightarrow> UserDimensions \<Rightarrow> Signals \<Rightarrow> int" where
  "adjustment m dims signals =
     (let d = distro m;
          a = 0;
          a = (if ExperienceLevel signals = ExpJunior then
                 (let a = (if Easy d \<ge> 8 then a + 5 else a);
                      a = (if DIY d \<ge> 9 then a - 10 else a)
                  in a)
               else if ExperienceLevel signals = ExpSenior then
                 (let a = (if DevFocus d \<ge> 9 then a + 5 else a);
                      a = (if DIY d \<ge> 7 then a + 3 else a);
                      a = (if Easy d \<ge> 10 \<and> DIY d \<le> 2 then a - 3 else a)
                  in a)
               else a);
          a = (if DevScore dims \<ge> 8 \<and> DevFocus d \<le> 5 then a - 5 else a);
          a = (if PerformanceScore dims \<ge> 8 \<and> Performance d \<le> 5 then a - 5 else a);
          perfectMatches = (0::int);
          perfectMatches = (if abs_go (RollingScore dims - Rolling d) \<le> 1
                            then perfectMatches + 1 else perfectMatches);
          perfectMatches = (if abs_go (DIYScore dims - DIY d) \<le> 1
                            then perfectMatches + 1 else perfectMatches);
          perfectMatches = (if abs_go (PerformanceScore dims - Performance d) \<le> 1
                            then perfectMatches + 1 else perfectMatches);
          perfectMatches = (if abs_go (DevScore dims - DevFocus d) \<le> 1
                            then perfectMatches + 1 else perfectMatches);
          a = (if perfectMatches \<ge> 3 then a + 8
               else if perfectMatches = 2 then a + 4 else a);
          a = (if Popularity d < 150 then a - 3 else a);
          a = (if Trend d = TrendDown \<and> Popularity d < 300 then a - 5 else a)
      in a)"

definition calculateFinalScore :: "Engine \<Rightarrow> MatchResult \<Rightarrow> UserDimensions \<Rightarrow> Signals \<Rightarrow> int" where
  "calculateFinalScore e m dims signals =
     clamp (baseScore m + adjustment m dims signals) 0 100"

definition determineCategory :: "Engine \<Rightarrow> int \<Rightarrow> FitCategory" where
  "determineCategory e score =
     (if score \<ge> 75 then FitStrong
      else if score \<ge> 50 then FitPotential
      else FitNone)"

definition Score :: "(string \<Rightarrow> string) \<Rightarrow> Engine \<Rightarrow> Signals \<Rightarrow> ScoreOutput" where
  "Score toLower e signals =
     (let dimensions = calculateDimensions toLower e signals;
          bestMatch = findBestMatch e dimensions signals;
          final = calculateFinalScore e bestMatch dimensions signals;
          category = determineCategory e final
      in \<lparr>Result = \<lparr>ScoreValue = final, Category = category,
                      Confidence = matchScore bestMatch\<rparr>,
          BestDistroID = ID (distro bestMatch),
          BestDistroName = Name (distro bestMatch)\<rparr>)"

subsection \<open>The shipped catalog and concrete inputs\<close>

text \<open>\<^verbatim>\<open>Top50Distros\<close>, in its declared order.\<close>

definition mkDistro ::
    "string \<Rightarrow> string \<Rightarrow> int \<Rightarrow> int \<Rightarrow> int \<Rightarrow> int \<Rightarrow> int \<Rightarrow> int \<Rightarrow> Trend \<Rightarrow> Distro" where
  "mkDistro i n r ea di pe de po tr =
     \<lparr>ID = i, Name = n, Rolling = r, Easy = ea, DIY = di, Performance = pe,
      DevFocus = de, Popularity = po, Trend = tr\<rparr>"

definition cachyos :: Distro where
  "cachyos = mkDistro ''cachyos'' ''CachyOS'' 10 6 6 10 9 3698 TrendUp"

definition arch :: Distro where
  "arch = mkDistro ''arch'' ''Arch Linux'' 10 3 10 9 9 373 TrendStable"

definition gentoo :: Distro where
  "gentoo = mkDistro ''gentoo'' ''Gentoo'' 10 1 10 10 9 218 TrendStable"

definition Top50Distros :: "Distro list" where
  "Top50Distros = [
     cachyos,
     mkDistro ''mint'' ''Linux Mint'' 1 10 2 6 6 2714 TrendDown,
     mkDistro ''mx'' ''MX Linux'' 3 8 4 6 6 1951 TrendStable,
     mkDistro ''debian'' ''Debian'' 1 7 6 7 8 1589 TrendStable,
     mkDistro ''endeavour'' ''EndeavourOS'' 10 7 7 8 9 1529 TrendUp,
     mkDistro ''pop'' ''Pop!_OS'' 4 9 3 8 9 1346 TrendStable,
     mkDistro ''manjaro'' ''Manjaro'' 10 8 5 7 8 1105 TrendStable,
     mkDistro ''ubuntu'' ''Ubuntu'' 2 10 2 7 9 1072 TrendStable,
     mkDistro ''fedora_newlogo_newcolor'' ''Fedora'' 5 8 4 8 9 1048 TrendStable,
     mkDistro ''zorin'' ''Zorin OS'' 1 10 1 6 5 1004 TrendStable,
     mkDistro ''suse'' ''openSUSE'' 6 7 6 8 8 789 TrendStable,
     mkDistro ''nobara'' ''Nobara'' 8 7 4 9 6 721 TrendUp,
     mkDistro ''elementary'' ''elementary OS'' 1 10 1 6 5 593 TrendStable,
     mkDistro ''nixos'' ''NixOS'' 10 2 10 9 10 555 TrendUp,
     mkDistro ''garuda'' ''Garuda Linux'' 10 7 6 9 8 452 TrendStable,
     mkDistro ''kali'' ''Kali Linux'' 5 5 6 6 7 419 TrendStable,
     arch,
     mkDistro ''alpine'' ''Alpine Linux'' 5 3 8 9 8 353 TrendUp,
     mkDistro ''kubuntu'' ''Kubuntu'' 2 9 3 6 7 313 TrendStable,
     mkDistro ''lite'' ''Linux Lite'' 1 10 1 6 4 307 TrendStable,
     mkDistro ''tails'' ''Tails'' 3 6 2 4 5 324 TrendStable,
     mkDistro ''parrot'' ''Parrot OS'' 5 6 5 6 7 254 TrendStable,
     mkDistro ''void'' ''Void Linux'' 10 3 9 9 8 203 TrendStable,
     gentoo,
     mkDistro ''artix'' ''Artix Linux'' 10 4 9 8 8 216 TrendStable,
     mkDistro ''solus'' ''Solus'' 6 9 3 7 7 357 TrendStable,
     mkDistro ''qubes'' ''Qubes OS'' 3 3 7 6 7 185 TrendStable,
     mkDistro ''rebornos'' ''RebornOS'' 10 7 6 8 8 150 TrendStable,
     mkDistro ''antix'' ''antiX'' 3 6 5 8 5 508 TrendStable,
     mkDistro ''lubuntu'' ''Lubuntu'' 2 9 2 7 6 241 TrendStable,
     mkDistro ''xubuntu'' ''Xubuntu'' 2 9 2 7 6 216 TrendStable,
     mkDistro ''openmandriva'' ''OpenMandriva'' 6 7 4 7 7 262 TrendStable,
     mkDistro ''deepin'' ''Deepin'' 3 9 2 6 6 238 TrendStable]"

text \<open>Signals used as concrete inputs below.\<close>

definition emptySignals :: Signals where
  "emptySignals = \<lparr>Topics = [], Sentiment = [], ExperienceLevel = ExpMid,
     Keywords = [], TechStack = []\<rparr>"

definition demoSignals :: Signals where
  "demoSignals = \<lparr>Topics = [], Sentiment = ''neutral'', ExperienceLevel = ExpMid,
     Keywords = [''lts'', ''gaming'', ''devops''], TechStack = [''rust'', ''python'']\<rparr>"

definition bashTwice :: Signals where
  "bashTwice = \<lparr>Topics = [], Sentiment = [], ExperienceLevel = ExpMid,
     Keywords = [], TechStack = [''bash'', ''bash'']\<rparr>"

definition seniorEmpty :: Signals where
  "seniorEmpty = \<lparr>Topics = [], Sentiment = ''neutral'', ExperienceLevel = ExpSenior,
     Keywords = [], TechStack = []\<rparr>"

text \<open>A mid-level profile whose vector is exactly the attribute vector of CachyOS.\<close>

definition kernelGamer :: Signals where
  "kernelGamer = \<lparr>Topics = [], Sentiment = ''neutral'', ExperienceLevel = ExpMid,
     Keywords = [''kernel'', ''simple'', ''gaming'', ''performance'', ''gpu''],
     TechStack = [''rust'', ''zig'', ''mojo'', ''go'']\<rparr>"

text \<open>A mid-level profile with every axis at 10, and a catalog entry at distance 20 from it
  with popularity 0.\<close>

definition maximalist :: Signals where
  "maximalist = \<lparr>Topics = [], Sentiment = ''neutral'', ExperienceLevel = ExpMid,
     Keywords = [''dotfiles'', ''rice'', ''gaming'', ''performance'', ''gpu'', ''vulkan'',
                 ''kernel'', ''docker'', ''devops''],
     TechStack = [''rust'', ''mojo'', ''zig'']\<rparr>"

definition oppositeDistro :: Distro where
  "oppositeDistro = mkDistro ''opposite'' ''Opposite'' 0 5 0 0 0 0 TrendStable"

text \<open>The stacking-penalty scenario of the spec: a vector with diy = 9 and devFocus = 9, and
  a catalog entry whose \<^verbatim>\<open>Easy\<close> and \<^verbatim>\<open>DevFocus\<close> are left open.\<close>

definition stackDims :: UserDimensions where
  "stackDims = \<lparr>RollingScore = 5, DIYScore = 9, PerformanceScore = 3, DevScore = 9\<rparr>"

definition stackDistro :: "int \<Rightarrow> int \<Rightarrow> Distro" where
  "stackDistro ea de = mkDistro ''stack'' ''Stack'' 5 ea 5 3 de 3790 TrendStable"

subsection \<open>Notions used in the proofs\<close>

text \<open>A catalog entry is eligible when the loop does not skip it.\<close>

definition eligible :: "Signals \<Rightarrow> Distro \<Rightarrow> bool" where
  "eligible signals d \<longleftrightarrow> \<not> (ExperienceLevel signals = ExpSenior \<and> Popularity d < 500)"

text \<open>The invariant of the selection loop, after the entries \<open>seen\<close>.\<close>

definition loopInv :: "UserDimensions \<Rightarrow> Signals \<Rightarrow> Distro list \<Rightarrow> MatchResult \<times> real \<Rightarrow> bool" where
  "loopInv dims signals seen st \<longleftrightarrow>
     matchScore (fst st) = snd st \<and>
     (\<forall>d \<in> set seen. eligible signals d \<longrightarrow> finalScore dims d \<le> snd st) \<and>
     (fst st = zeroMatchResult \<or>
      (distro (fst st) \<in> set seen \<and> eligible signals (distro (fst st)) \<and>
       snd st = finalScore dims (distro (fst st)) \<and> 0 < snd st))"

section \<open>Properties\<close>

subsection \<open>The categorizer\<close>

text \<open>
  C5. The categorizer is a total threshold map on the integer score: every score of at
  least 75 is strong, every score from 50 to 74 is potential, every other score is none;
  75 is strong, 74 and 50 are potential, 49 is none.
\<close>

theorem determineCategory_thresholds:
  "(75 \<le> s \<longrightarrow> determineCategory e s = FitStrong) \<and>
   (50 \<le> s \<and> s < 75 \<longrightarrow> determineCategory e s = FitPotential) \<and>
   (s < 50 \<longrightarrow> determineCategory e s = FitNone) \<and>
   determineCategory e 75 = FitStrong \<and>
   determineCategory e 74 = FitPotential \<and>
   determineCategory e 50 = FitPotential \<and>
   determineCategory e 49 = FitNone \<and>
   FitStrong \<noteq> FitPotential \<and> FitStrong \<noteq> FitNone \<and> FitPotential \<noteq> FitNone"
  by (simp add: determineCategory_def FitStrong_def FitPotential_def FitNone_def)

theorem determineCategory_thresholds_witness:
  "(75::int) \<le> 100 \<and> determineCategory (NewEngine []) 100 = FitStrong \<and>
   (50::int) \<le> 60 \<and> (60::int) < 75 \<and> determineCategory (NewEngine []) 60 = FitPotential \<and>
   (0::int) < 50 \<and> determineCategory (NewEngine []) 0 = FitNone"
  using determineCategory_thresholds [of 100 "NewEngine []"]
        determineCategory_thresholds [of 60 "NewEngine []"]
        determineCategory_thresholds [of 0 "NewEngine []"]
  by simp

subsection \<open>The loops of the dimension extractor in closed form\<close>

lemma fold_hit_add:
  "fold (\<lambda>p s. if h p then s + d else s) ps (s::int) = s + d * int (length (filter h ps))"
  by (induction ps arbitrary: s) (simp_all add: algebra_simps)

lemma fold_hit_sub:
  "fold (\<lambda>p s. if h p then s - d else s) ps (s::int) = s - d * int (length (filter h ps))"
  by (induction ps arbitrary: s) (simp_all add: algebra_simps)

lemma fold_plus:
  "fold (\<lambda>x s. s + g x) xs (s::int) = s + sum_list (map g xs)"
  by (induction xs arbitrary: s) simp_all

lemma fold_minus:
  "fold (\<lambda>x s. s - g x) xs (s::int) = s - sum_list (map g xs)"
  by (induction xs arbitrary: s) simp_all

lemma sum_list_perm:
  "mset xs = mset ys \<Longrightarrow> sum_list (map g xs) = (sum_list (map g ys) :: int)"
  by (metis mset_map sum_mset_sum_list)

lemma rolling_closed:
  "calculateRollingPreference signals =
     clamp (5 + (\<Sum>tech\<leftarrow>TechStack signals. 2 * int (length (filter ((=) tech) bleedingTech)))
              + (if ExperienceLevel signals = ExpSenior then 1 else 0)
              - (\<Sum>kw\<leftarrow>Keywords signals. 2 * int (length (filter ((=) kw) stableKeywords)))) 0 10"
  by (simp add: calculateRollingPreference_def Let_def fold_hit_add fold_hit_sub fold_plus fold_minus)

lemma diy_closed:
  "diyKeywordScore signals =
     5 + (\<Sum>kw\<leftarrow>Keywords signals. 3 * int (length (filter ((=) kw) diyKeywords))
                                   - 2 * int (length (filter ((=) kw) easyKeywords)))"
proof -
  have "fold (\<lambda>kw s. s + (3 * int (length (filter ((=) kw) diyKeywords))
                          - 2 * int (length (filter ((=) kw) easyKeywords)))) (Keywords signals) 5
        = 5 + (\<Sum>kw\<leftarrow>Keywords signals. 3 * int (length (filter ((=) kw) diyKeywords))
                                   - 2 * int (length (filter ((=) kw) easyKeywords)))"
    by (rule fold_plus)
  then show ?thesis
    by (simp add: diyKeywordScore_def Let_def fold_hit_add fold_hit_sub algebra_simps)
qed

lemma script_closed:
  "scriptCount signals =
     (\<Sum>tech\<leftarrow>TechStack signals. int (length (filter ((=) tech) scriptingLangs)))"
  by (simp add: scriptCount_def fold_hit_add fold_plus)

lemma perf_closed:
  "calculatePerformanceNeed signals =
     clamp (3 + (\<Sum>kw\<leftarrow>Keywords signals. 2 * int (length (filter ((=) kw) perfKeywords)))
              + (\<Sum>tech\<leftarrow>TechStack signals. int (length (filter ((=) tech) perfTech)))) 0 10"
  by (simp add: calculatePerformanceNeed_def Let_def fold_hit_add fold_plus)

lemma dev_closed:
  "calculateDevFocus toLower signals =
     clamp (5 + (\<Sum>kw\<leftarrow>Keywords signals.
                   2 * int (length (filter (Contains (toLower kw)) criticalKeywords)))
              + (\<Sum>tech\<leftarrow>TechStack signals.
                   int (length (filter (\<lambda>dev. toLower tech = dev \<or> Contains (toLower tech) dev) devTech)))
              + (\<Sum>kw\<leftarrow>Keywords signals.
                   int (length (filter (\<lambda>dev. toLower kw = dev \<or> Contains (toLower kw) dev) devKeywords))))
       0 10"
  by (simp add: calculateDevFocus_def Let_def fold_hit_add fold_plus)

lemma hits_distinct:
  "distinct table \<Longrightarrow> int (length (filter ((=) x) table)) = (if x \<in> set table then 1 else 0)"
  by (induction table) auto

lemma distinct_scriptingLangs: "distinct scriptingLangs"
  by (simp add: scriptingLangs_def)

lemma sum_list_indicator:
  "(\<Sum>x\<leftarrow>xs. if P x then 1 else 0) = int (length (filter P xs))"
  by (induction xs) simp_all

subsection \<open>The dimension extractor\<close>

text \<open>
  C8. For every Signals whose Topics, Keywords and TechStack are empty and whose
  experience level is mid, the dimension extractor returns the baseline vector
  rolling = 5, diy = 5, performance = 3, devFocus = 5.
\<close>

theorem calculateDimensions_empty:
  assumes "Topics signals = []" and "Keywords signals = []" and "TechStack signals = []"
    and "ExperienceLevel signals = ExpMid"
  shows "calculateDimensions toLower e signals =
         \<lparr>RollingScore = 5, DIYScore = 5, PerformanceScore = 3, DevScore = 5\<rparr>"
  using assms
  by (simp add: calculateDimensions_def calculateRollingPreference_def calculateDIYPreference_def
      diyKeywordScore_def scriptCount_def calculatePerformanceNeed_def calculateDevFocus_def
      clamp_def ExpMid_def ExpSenior_def)

theorem calculateDimensions_empty_witness:
  "Topics emptySignals = [] \<and> Keywords emptySignals = [] \<and> TechStack emptySignals = [] \<and>
   ExperienceLevel emptySignals = ExpMid \<and>
   calculateDimensions asciiToLower (NewEngine []) emptySignals =
     \<lparr>RollingScore = 5, DIYScore = 5, PerformanceScore = 3, DevScore = 5\<rparr>"
proof -
  have h: "Topics emptySignals = []" "Keywords emptySignals = []" "TechStack emptySignals = []"
    "ExperienceLevel emptySignals = ExpMid"
    by (simp_all add: emptySignals_def)
  show ?thesis using h calculateDimensions_empty [OF h] by simp
qed

text \<open>
  C6. The dimension extractor is order-insensitive: replacing the Keywords list and the
  TechStack list of a Signals by permutations of them leaves all four axes of the
  UserVector unchanged.
\<close>

theorem calculateDimensions_perm:
  assumes "mset kws = mset (Keywords signals)" and "mset ts = mset (TechStack signals)"
  shows "calculateDimensions toLower e (signals\<lparr>Keywords := kws, TechStack := ts\<rparr>) =
         calculateDimensions toLower e signals"
proof -
  let ?s = "signals\<lparr>Keywords := kws, TechStack := ts\<rparr>"
  have k: "\<And>g :: string \<Rightarrow> int. sum_list (map g kws) = sum_list (map g (Keywords signals))"
    using assms(1) by (rule sum_list_perm)
  have t: "\<And>g :: string \<Rightarrow> int. sum_list (map g ts) = sum_list (map g (TechStack signals))"
    using assms(2) by (rule sum_list_perm)
  have "calculateRollingPreference ?s = calculateRollingPreference signals"
    by (simp add: rolling_closed k t)
  moreover have "diyKeywordScore ?s = diyKeywordScore signals"
    by (simp add: diy_closed k t)
  moreover have "scriptCount ?s = scriptCount signals"
    by (simp add: script_closed k t)
  moreover have "calculatePerformanceNeed ?s = calculatePerformanceNeed signals"
    by (simp add: perf_closed k t)
  moreover have "calculateDevFocus toLower ?s = calculateDevFocus toLower signals"
    by (simp add: dev_closed k t)
  ultimately show ?thesis
    by (simp add: calculateDimensions_def calculateDIYPreference_def)
qed

theorem calculateDimensions_perm_witness:
  "mset [''devops'', ''lts'', ''gaming''] = mset (Keywords demoSignals) \<and>
   mset [''python'', ''rust''] = mset (TechStack demoSignals) \<and>
   calculateDimensions asciiToLower (NewEngine [])
     (demoSignals\<lparr>Keywords := [''devops'', ''lts'', ''gaming''],
                  TechStack := [''python'', ''rust'']\<rparr>) =
   calculateDimensions asciiToLower (NewEngine []) demoSignals"
proof -
  have k: "mset [''devops'', ''lts'', ''gaming''] = mset (Keywords demoSignals)"
    by (simp add: demoSignals_def)
  have t: "mset [''python'', ''rust''] = mset (TechStack demoSignals)"
    by (simp add: demoSignals_def)
  show ?thesis using k t calculateDimensions_perm [OF k t] by simp
qed

text \<open>
  C3, as the code has it. In the diy axis the +2 flat bonus is added exactly when the
  tech-stack list holds at least two entries, counted with repetition, that equal one of
  the scripting-language terms bash, lua, python.
\<close>

theorem diy_bonus_counts_entries:
  "scriptCount signals =
     int (length (filter (\<lambda>tech. tech \<in> set scriptingLangs) (TechStack signals))) \<and>
   calculateDIYPreference signals =
     clamp (diyKeywordScore signals +
            (if 2 \<le> length (filter (\<lambda>tech. tech \<in> set scriptingLangs) (TechStack signals))
             then 2 else 0)) 0 10"
  by (simp add: calculateDIYPreference_def script_closed hits_distinct [OF distinct_scriptingLangs]
      sum_list_indicator)

text \<open>
  C3, as the spec states it, fails: the tech stack bash, bash holds one distinct
  scripting term, and receives the bonus (7 instead of 5); the tech stack bash does not.
\<close>

theorem diy_bonus_distinct_counterexample:
  "card (set (TechStack bashTwice) \<inter> set scriptingLangs) = 1 \<and>
   diyKeywordScore bashTwice = 5 \<and>
   calculateDIYPreference bashTwice = 7 \<and>
   calculateDIYPreference (bashTwice\<lparr>TechStack := [''bash'']\<rparr>) = 5"
  by (simp add: bashTwice_def scriptingLangs_def calculateDIYPreference_def diyKeywordScore_def
      scriptCount_def clamp_def)

subsection \<open>The matcher: ranges and the selection loop\<close>

lemma distance_nonneg: "0 \<le> distance dims d"
  by (simp add: distance_def)

lemma normDist_range: "0 \<le> normDist dims d \<and> normDist dims d \<le> 1"
  by (simp add: normDist_def Let_def)

lemma similarity_range: "0 \<le> similarity dims d \<and> similarity dims d \<le> 1"
  using normDist_range [of dims d] by (simp add: similarity_def)

lemma popNorm_range: "0 \<le> popNorm d \<and> popNorm d \<le> 1"
  by (simp add: popNorm_def Let_def)

lemma trendMultiplier_range: "97 / 100 \<le> trendMultiplier d \<and> trendMultiplier d \<le> 108 / 100"
  by (simp add: trendMultiplier_def)

lemma weighted_range:
  "0 \<le> alpha * similarity dims d + beta * popNorm d \<and>
   alpha * similarity dims d + beta * popNorm d \<le> 1"
  using similarity_range [of dims d] popNorm_range [of d]
  by (simp add: alpha_def beta_def)

lemma finalScore_range: "0 \<le> finalScore dims d \<and> finalScore dims d \<le> 108 / 100"
proof -
  let ?w = "alpha * similarity dims d + beta * popNorm d"
  let ?t = "trendMultiplier d"
  have w: "0 \<le> ?w" "?w \<le> 1" using weighted_range [of dims d] by simp_all
  have t: "0 \<le> ?t" "?t \<le> 108 / 100" using trendMultiplier_range [of d] by simp_all
  have "0 \<le> ?w * ?t" using w(1) t(1) by (rule mult_nonneg_nonneg)
  moreover have "?w * ?t \<le> 1 * (108 / 100)"
    using w(2) t(2) t(1) by (intro mult_mono) simp_all
  ultimately show ?thesis by (simp add: finalScore_def)
qed

lemma loopInv_init: "loopInv dims signals [] (zeroMatchResult, 0)"
  by (simp add: loopInv_def zeroMatchResult_def)

lemma loopInv_step:
  assumes "loopInv dims signals seen st"
  shows "loopInv dims signals (seen @ [d]) (matchStep dims signals d st)"
  using assms
  by (auto simp: loopInv_def matchStep_def eligible_def zeroMatchResult_def)

lemma loopInv_fold:
  "loopInv dims signals seen st \<Longrightarrow>
   loopInv dims signals (seen @ ds) (fold (matchStep dims signals) ds st)"
proof (induction ds arbitrary: seen st)
  case Nil
  then show ?case by simp
next
  case (Cons d ds)
  from Cons.prems have "loopInv dims signals (seen @ [d]) (matchStep dims signals d st)"
    by (rule loopInv_step)
  from Cons.IH [OF this] show ?case by simp
qed

lemma loopInv_final:
  "loopInv dims signals (distros e) (fold (matchStep dims signals) (distros e) (zeroMatchResult, 0))"
  using loopInv_fold [OF loopInv_init, of dims signals "distros e"] by simp

lemma selectBest_cases:
  "selectBest e dims signals = zeroMatchResult \<or>
   (distro (selectBest e dims signals) \<in> set (distros e) \<and>
    eligible signals (distro (selectBest e dims signals)) \<and>
    matchScore (selectBest e dims signals) = finalScore dims (distro (selectBest e dims signals)) \<and>
    0 < matchScore (selectBest e dims signals))"
  using loopInv_final [of dims signals e]
  by (auto simp: loopInv_def selectBest_def)

lemma selectBest_max:
  "d \<in> set (distros e) \<Longrightarrow> eligible signals d \<Longrightarrow>
   finalScore dims d \<le> matchScore (selectBest e dims signals)"
  using loopInv_final [of dims signals e]
  by (auto simp: loopInv_def selectBest_def)

lemma selectBest_range:
  "0 \<le> matchScore (selectBest e dims signals) \<and> matchScore (selectBest e dims signals) \<le> 108 / 100"
  using selectBest_cases [of e dims signals]
    finalScore_range [of dims "distro (selectBest e dims signals)"]
  by (auto simp: zeroMatchResult_def)

lemma selectBest_zero:
  assumes "\<forall>d \<in> set (distros e). eligible signals d \<longrightarrow> finalScore dims d = 0"
  shows "selectBest e dims signals = zeroMatchResult"
  using selectBest_cases [of e dims signals] assms by force

lemma applyPenalties_distro: "distro (applyPenalties dims signals m) = distro m"
  by (simp add: applyPenalties_def Let_def)

lemma applyPenalties_range:
  assumes "0 \<le> matchScore m"
  shows "0 \<le> matchScore (applyPenalties dims signals m) \<and>
         matchScore (applyPenalties dims signals m) \<le> matchScore m"
  using assms by (simp add: applyPenalties_def Let_def)

lemma findBestMatch_range:
  "0 \<le> matchScore (findBestMatch e dims signals) \<and>
   matchScore (findBestMatch e dims signals) \<le> 108 / 100"
  using selectBest_range [of e dims signals]
    applyPenalties_range [of "selectBest e dims signals" dims signals]
  by (simp add: findBestMatch_def)

lemma clamp_range: "lo \<le> hi \<Longrightarrow> lo \<le> clamp v lo hi \<and> clamp v lo hi \<le> hi"
  by (simp add: clamp_def)

lemma Round_mono_bound: "0 \<le> x \<Longrightarrow> x \<le> 108 \<Longrightarrow> 0 \<le> Round x \<and> Round x \<le> 108"
  by (simp add: Round_def)


lemma findBestMatch_zero:
  "selectBest e dims signals = zeroMatchResult \<Longrightarrow> findBestMatch e dims signals = zeroMatchResult"
  by (simp add: findBestMatch_def applyPenalties_def zeroMatchResult_def zeroDistro_def Let_def)

lemma applyPenalties_not_senior:
  "ExperienceLevel signals \<noteq> ExpSenior \<Longrightarrow> applyPenalties dims signals m = m"
  by (simp add: applyPenalties_def)

lemma selectBest_single:
  assumes "eligible signals d" and "0 < finalScore dims d"
  shows "selectBest (NewEngine [d]) dims signals = \<lparr>distro = d, matchScore = finalScore dims d\<rparr>"
  using assms by (auto simp: selectBest_def NewEngine_def matchStep_def eligible_def)

subsection \<open>Evaluation at the concrete inputs\<close>

lemma sqrt_400: "sqrt 400 = 20"
  by (rule real_sqrt_unique) simp_all

lemma sqrt_25: "sqrt 25 = 5"
  by (rule real_sqrt_unique) simp_all

lemma sqrt_16: "sqrt 16 = 4"
  by (rule real_sqrt_unique) simp_all

lemma kg_rolling: "calculateRollingPreference kernelGamer = 10"
  apply (simp add: rolling_closed kernelGamer_def ExpMid_def ExpSenior_def)
  apply (simp add: bleedingTech_def stableKeywords_def clamp_def)
  done

lemma kg_diy: "calculateDIYPreference kernelGamer = 6"
  apply (simp add: calculateDIYPreference_def diy_closed script_closed kernelGamer_def)
  apply (simp add: diyKeywords_def easyKeywords_def scriptingLangs_def clamp_def)
  done

lemma kg_perf: "calculatePerformanceNeed kernelGamer = 10"
  apply (simp add: perf_closed kernelGamer_def)
  apply (simp add: perfKeywords_def perfTech_def clamp_def)
  done

lemma kg_dev: "calculateDevFocus asciiToLower kernelGamer = 9"
  apply (simp add: dev_closed kernelGamer_def)
  apply (simp add: criticalKeywords_def devTech_def devKeywords_def clamp_def
      asciiToLower_def asciiToLowerChar_def)
  done

lemma kernelGamer_dims:
  "calculateDimensions asciiToLower e kernelGamer =
     \<lparr>RollingScore = 10, DIYScore = 6, PerformanceScore = 10, DevScore = 9\<rparr>"
  by (simp add: calculateDimensions_def kg_rolling kg_diy kg_perf kg_dev)

lemma mx_rolling: "calculateRollingPreference maximalist = 10"
  apply (simp add: rolling_closed maximalist_def ExpMid_def ExpSenior_def)
  apply (simp add: bleedingTech_def stableKeywords_def clamp_def)
  done

lemma mx_diy: "calculateDIYPreference maximalist = 10"
  apply (simp add: calculateDIYPreference_def diy_closed script_closed maximalist_def)
  apply (simp add: diyKeywords_def easyKeywords_def scriptingLangs_def clamp_def)
  done

lemma mx_perf: "calculatePerformanceNeed maximalist = 10"
  apply (simp add: perf_closed maximalist_def)
  apply (simp add: perfKeywords_def perfTech_def clamp_def)
  done

lemma mx_dev: "calculateDevFocus asciiToLower maximalist = 10"
  apply (simp add: dev_closed maximalist_def)
  apply (simp add: criticalKeywords_def devTech_def devKeywords_def clamp_def
      asciiToLower_def asciiToLowerChar_def)
  done

lemma maximalist_dims:
  "calculateDimensions asciiToLower e maximalist =
     \<lparr>RollingScore = 10, DIYScore = 10, PerformanceScore = 10, DevScore = 10\<rparr>"
  by (simp add: calculateDimensions_def mx_rolling mx_diy mx_perf mx_dev)

lemma seniorEmpty_dims:
  "calculateDimensions toLower e seniorEmpty =
     \<lparr>RollingScore = 6, DIYScore = 5, PerformanceScore = 3, DevScore = 5\<rparr>"
  by (simp add: calculateDimensions_def calculateRollingPreference_def calculateDIYPreference_def
      diyKeywordScore_def scriptCount_def calculatePerformanceNeed_def calculateDevFocus_def
      clamp_def seniorEmpty_def)

lemma popNorm_cachyos: "1 / 2 \<le> popNorm cachyos"
proof -
  have "ln (3791::real) \<le> ln (3699 * 3699)" by (subst ln_le_cancel_iff) simp_all
  also have "\<dots> = ln 3699 + ln (3699::real)" by (rule ln_mult_pos) simp_all
  finally have a: "ln (3791::real) \<le> 2 * ln 3699" by simp
  have b: "0 < ln (3791::real)" by simp
  have c: "ln (3699::real) \<le> ln 3791" by simp
  define q :: real where "q = ln 3699 / ln 3791"
  have lo: "1 / 2 \<le> q" using a b by (simp add: q_def field_simps)
  have hi: "q \<le> 1" using b c by (simp add: q_def)
  have "popNorm cachyos = (if q < 0 then 0 else if q > 1 then 1 else q)"
    by (simp add: popNorm_def cachyos_def mkDistro_def maxPopularity_def Let_def q_def)
  with lo hi show ?thesis by simp
qed

lemma finalScore_cachyos:
  "1026 / 1000 \<le> finalScore \<lparr>RollingScore = 10, DIYScore = 6, PerformanceScore = 10, DevScore = 9\<rparr> cachyos"
proof -
  let ?dims = "\<lparr>RollingScore = 10, DIYScore = 6, PerformanceScore = 10, DevScore = 9\<rparr>"
  have s: "similarity ?dims cachyos = 1"
    by (simp add: similarity_def normDist_def distance_def cachyos_def mkDistro_def maxDist_def)
  have t: "trendMultiplier cachyos = 108 / 100"
    by (simp add: trendMultiplier_def cachyos_def mkDistro_def TrendUp_def)
  have "finalScore ?dims cachyos = (9 / 10 + popNorm cachyos / 10) * (108 / 100)"
    by (simp add: finalScore_def alpha_def beta_def s t)
  then show ?thesis using popNorm_cachyos by simp
qed

lemma cachyos_in_catalog: "cachyos \<in> set (distros (NewEngine Top50Distros))"
  by (simp add: NewEngine_def Top50Distros_def)

lemma popNorm_3790: "Popularity d = 3790 \<Longrightarrow> popNorm d = 1"
  by (simp add: popNorm_def maxPopularity_def)

lemma popNorm_stack: "popNorm (stackDistro ea de) = 1"
  by (rule popNorm_3790) (simp add: stackDistro_def mkDistro_def)

lemma trendMultiplier_stack: "trendMultiplier (stackDistro ea de) = 1"
  by (simp add: trendMultiplier_def stackDistro_def mkDistro_def TrendStable_def TrendUp_def
      TrendDown_def)

lemma finalScore_stack_6: "finalScore stackDims (stackDistro ea 6) = 31 / 40"
proof -
  have "distance stackDims (stackDistro ea 6) = 5"
    by (simp add: distance_def stackDims_def stackDistro_def mkDistro_def sqrt_25)
  then have "similarity stackDims (stackDistro ea 6) = 3 / 4"
    by (simp add: similarity_def normDist_def maxDist_def)
  then show ?thesis
    by (simp add: finalScore_def alpha_def beta_def popNorm_stack trendMultiplier_stack)
qed

lemma finalScore_stack_9: "finalScore stackDims (stackDistro ea 9) = 41 / 50"
proof -
  have "distance stackDims (stackDistro ea 9) = 4"
    by (simp add: distance_def stackDims_def stackDistro_def mkDistro_def sqrt_16)
  then have "similarity stackDims (stackDistro ea 9) = 4 / 5"
    by (simp add: similarity_def normDist_def maxDist_def)
  then show ?thesis
    by (simp add: finalScore_def alpha_def beta_def popNorm_stack trendMultiplier_stack)
qed

lemma eligible_stack: "eligible signals (stackDistro ea de)"
  by (simp add: eligible_def stackDistro_def mkDistro_def)

lemma selectBest_stack_6:
  "selectBest (NewEngine [stackDistro ea 6]) stackDims signals =
     \<lparr>distro = stackDistro ea 6, matchScore = 31 / 40\<rparr>"
  using selectBest_single [of signals "stackDistro ea 6" stackDims] eligible_stack
  by (simp add: finalScore_stack_6)

lemma selectBest_stack_9:
  "selectBest (NewEngine [stackDistro ea 9]) stackDims signals =
     \<lparr>distro = stackDistro ea 9, matchScore = 41 / 50\<rparr>"
  using selectBest_single [of signals "stackDistro ea 9" stackDims] eligible_stack
  by (simp add: finalScore_stack_9)

lemma stack_fields:
  "Easy (stackDistro ea de) = ea" "DevFocus (stackDistro ea de) = de"
  "DevScore stackDims = 9" "DIYScore stackDims = 9"
  "ExperienceLevel seniorEmpty = ExpSenior" "ExperienceLevel emptySignals \<noteq> ExpSenior"
  by (simp_all add: stackDistro_def mkDistro_def stackDims_def seniorEmpty_def emptySignals_def
      ExpMid_def ExpSenior_def)

lemma finalScore_opposite:
  "finalScore \<lparr>RollingScore = 10, DIYScore = 10, PerformanceScore = 10, DevScore = 10\<rparr>
     oppositeDistro = 0"
proof -
  let ?dims = "\<lparr>RollingScore = 10, DIYScore = 10, PerformanceScore = 10, DevScore = 10\<rparr>"
  have "distance ?dims oppositeDistro = 20"
    by (simp add: distance_def oppositeDistro_def mkDistro_def sqrt_400)
  then have "similarity ?dims oppositeDistro = 0"
    by (simp add: similarity_def normDist_def maxDist_def)
  moreover have "popNorm oppositeDistro = 0"
    by (simp add: popNorm_def oppositeDistro_def mkDistro_def)
  ultimately show ?thesis by (simp add: finalScore_def)
qed

subsection \<open>Range invariants\<close>

text \<open>
  C4. For every Signals and every catalog, each of the four axes of the UserVector lies
  in [0,10]; the similarity and popNorm computed for a candidate lie in [0,1]; the final
  integer score of the normalizer lies in [0,100].
\<close>

theorem range_invariants:
  "0 \<le> RollingScore (calculateDimensions toLower e signals) \<and>
   RollingScore (calculateDimensions toLower e signals) \<le> 10 \<and>
   0 \<le> DIYScore (calculateDimensions toLower e signals) \<and>
   DIYScore (calculateDimensions toLower e signals) \<le> 10 \<and>
   0 \<le> PerformanceScore (calculateDimensions toLower e signals) \<and>
   PerformanceScore (calculateDimensions toLower e signals) \<le> 10 \<and>
   0 \<le> DevScore (calculateDimensions toLower e signals) \<and>
   DevScore (calculateDimensions toLower e signals) \<le> 10 \<and>
   0 \<le> similarity dims d \<and> similarity dims d \<le> 1 \<and>
   0 \<le> popNorm d \<and> popNorm d \<le> 1 \<and>
   0 \<le> calculateFinalScore e m dims signals \<and> calculateFinalScore e m dims signals \<le> 100 \<and>
   0 \<le> ScoreValue (Result (Score toLower e signals)) \<and>
   ScoreValue (Result (Score toLower e signals)) \<le> 100"
proof -
  have c: "\<And>v. 0 \<le> clamp v 0 10 \<and> clamp v 0 10 \<le> 10"
    by (rule clamp_range) simp
  have f: "\<And>v. 0 \<le> clamp v 0 100 \<and> clamp v 0 100 \<le> 100"
    by (rule clamp_range) simp
  have dimsr: "0 \<le> RollingScore (calculateDimensions toLower e signals) \<and>
   RollingScore (calculateDimensions toLower e signals) \<le> 10 \<and>
   0 \<le> DIYScore (calculateDimensions toLower e signals) \<and>
   DIYScore (calculateDimensions toLower e signals) \<le> 10 \<and>
   0 \<le> PerformanceScore (calculateDimensions toLower e signals) \<and>
   PerformanceScore (calculateDimensions toLower e signals) \<le> 10 \<and>
   0 \<le> DevScore (calculateDimensions toLower e signals) \<and>
   DevScore (calculateDimensions toLower e signals) \<le> 10"
    by (simp add: calculateDimensions_def rolling_closed calculateDIYPreference_def
        perf_closed dev_closed c Let_def)
  have fin: "0 \<le> calculateFinalScore e m dims signals \<and> calculateFinalScore e m dims signals \<le> 100"
    by (simp add: calculateFinalScore_def f)
  have sc: "0 \<le> ScoreValue (Result (Score toLower e signals)) \<and>
   ScoreValue (Result (Score toLower e signals)) \<le> 100"
    by (simp add: Score_def Let_def calculateFinalScore_def f)
  from dimsr fin sc similarity_range [of dims d] popNorm_range [of d] show ?thesis
    by blast
qed

text \<open>
  C10. Every candidate's composite lies in [0, 1.08]; the penalties only decrease the
  winner's composite, so the match quality returned by the matcher, and the confidence
  of the ScoreResult, lie in [0, 1.08], and the base score before the final clamp is at
  most round(1.08 * 100) = 108.
\<close>

theorem matchScore_at_most_108_percent:
  "0 \<le> finalScore dims d \<and> finalScore dims d \<le> 108 / 100 \<and>
   0 \<le> matchScore (findBestMatch e dims signals) \<and>
   matchScore (findBestMatch e dims signals) \<le> matchScore (selectBest e dims signals) \<and>
   matchScore (selectBest e dims signals) \<le> 108 / 100 \<and>
   0 \<le> Confidence (Result (Score toLower e signals)) \<and>
   Confidence (Result (Score toLower e signals)) \<le> 108 / 100 \<and>
   baseScore (findBestMatch e dims signals) \<le> 108 \<and>
   Round (108 / 100 * 100) = 108"
proof -
  have s: "0 \<le> matchScore (selectBest e dims signals)"
    "matchScore (selectBest e dims signals) \<le> 108 / 100"
    using selectBest_range [of e dims signals] by simp_all
  have p: "0 \<le> matchScore (findBestMatch e dims signals)"
    "matchScore (findBestMatch e dims signals) \<le> matchScore (selectBest e dims signals)"
    using applyPenalties_range [OF s(1), of dims signals] by (simp_all add: findBestMatch_def)
  have c: "0 \<le> Confidence (Result (Score toLower e signals)) \<and>
     Confidence (Result (Score toLower e signals)) \<le> 108 / 100"
    using findBestMatch_range [of e "calculateDimensions toLower e signals" signals]
    by (simp add: Score_def Let_def)
  have "matchScore (findBestMatch e dims signals) * 100 \<le> 108" using p(2) s(2) by simp
  moreover have "0 \<le> matchScore (findBestMatch e dims signals) * 100" using p(1) by simp
  ultimately have b: "baseScore (findBestMatch e dims signals) \<le> 108"
    unfolding baseScore_def using Round_mono_bound by blast
  have r: "Round (108 / 100 * 100) = 108" by (simp add: Round_def)
  from finalScore_range [of dims d] s p c b r show ?thesis by blast
qed

text \<open>
  C2 asks for a match quality in [0,1], as the comments on \<^verbatim>\<open>MatchResult.matchScore\<close> and
  \<^verbatim>\<open>Result.Confidence\<close> do. The code exceeds it on the shipped catalog: the profile
  \<open>kernelGamer\<close> has the vector (10, 6, 10, 9) of CachyOS, a rising entry, so the trend
  multiplier 1.08 lifts the match quality and the confidence above 1.
\<close>

theorem matchScore_exceeds_one:
  "calculateDimensions asciiToLower (NewEngine Top50Distros) kernelGamer =
     \<lparr>RollingScore = 10, DIYScore = 6, PerformanceScore = 10, DevScore = 9\<rparr> \<and>
   1 < matchScore (findBestMatch (NewEngine Top50Distros)
         (calculateDimensions asciiToLower (NewEngine Top50Distros) kernelGamer) kernelGamer) \<and>
   1 < Confidence (Result (Score asciiToLower (NewEngine Top50Distros) kernelGamer))"
proof -
  let ?e = "NewEngine Top50Distros"
  let ?dims = "\<lparr>RollingScore = 10, DIYScore = 6, PerformanceScore = 10, DevScore = 9\<rparr>"
  have ns: "ExperienceLevel kernelGamer \<noteq> ExpSenior"
    by (simp add: kernelGamer_def ExpMid_def ExpSenior_def)
  then have "eligible kernelGamer cachyos" by (simp add: eligible_def)
  from selectBest_max [OF cachyos_in_catalog this, of ?dims] finalScore_cachyos
  have "1 < matchScore (selectBest ?e ?dims kernelGamer)" by simp
  then have "1 < matchScore (findBestMatch ?e ?dims kernelGamer)"
    by (simp add: findBestMatch_def applyPenalties_not_senior [OF ns])
  then show ?thesis
    by (simp add: Score_def Let_def kernelGamer_dims)
qed

subsection \<open>Selection and penalties\<close>

text \<open>
  C7. The penalties are applied to the composite of the selected winner, for senior
  profiles only: when both conditions hold (user devFocus at least 8 with winner devFocus
  at most 7, and user diy at least 8 with winner easy at least 9) the returned match
  quality is composite * 0.85 * 0.90; when only one condition holds only its factor is
  applied; a profile that is not senior gets none.
\<close>

theorem penalties_after_selection:
  "distro (findBestMatch e dims signals) = distro (selectBest e dims signals) \<and>
   (selectBest e dims signals = zeroMatchResult \<or>
    distro (selectBest e dims signals) \<in> set (distros e) \<and>
    matchScore (selectBest e dims signals) = finalScore dims (distro (selectBest e dims signals))) \<and>
   (ExperienceLevel signals = ExpSenior \<and>
    DevScore dims \<ge> 8 \<and> DevFocus (distro (selectBest e dims signals)) \<le> 7 \<and>
    DIYScore dims \<ge> 8 \<and> Easy (distro (selectBest e dims signals)) \<ge> 9 \<longrightarrow>
      matchScore (findBestMatch e dims signals) =
        matchScore (selectBest e dims signals) * (85 / 100) * (90 / 100)) \<and>
   (ExperienceLevel signals = ExpSenior \<and>
    DevScore dims \<ge> 8 \<and> DevFocus (distro (selectBest e dims signals)) \<le> 7 \<and>
    \<not> (DIYScore dims \<ge> 8 \<and> Easy (distro (selectBest e dims signals)) \<ge> 9) \<longrightarrow>
      matchScore (findBestMatch e dims signals) =
        matchScore (selectBest e dims signals) * (85 / 100)) \<and>
   (ExperienceLevel signals = ExpSenior \<and>
    \<not> (DevScore dims \<ge> 8 \<and> DevFocus (distro (selectBest e dims signals)) \<le> 7) \<and>
    DIYScore dims \<ge> 8 \<and> Easy (distro (selectBest e dims signals)) \<ge> 9 \<longrightarrow>
      matchScore (findBestMatch e dims signals) =
        matchScore (selectBest e dims signals) * (90 / 100)) \<and>
   (ExperienceLevel signals = ExpSenior \<and>
    \<not> (DevScore dims \<ge> 8 \<and> DevFocus (distro (selectBest e dims signals)) \<le> 7) \<and>
    \<not> (DIYScore dims \<ge> 8 \<and> Easy (distro (selectBest e dims signals)) \<ge> 9) \<longrightarrow>
      findBestMatch e dims signals = selectBest e dims signals) \<and>
   (ExperienceLevel signals \<noteq> ExpSenior \<longrightarrow>
      findBestMatch e dims signals = selectBest e dims signals)"
proof -
  have "selectBest e dims signals = zeroMatchResult \<or>
    distro (selectBest e dims signals) \<in> set (distros e) \<and>
    matchScore (selectBest e dims signals) = finalScore dims (distro (selectBest e dims signals))"
    using selectBest_cases [of e dims signals] by blast
  then show ?thesis
    by (auto simp: findBestMatch_def applyPenalties_def Let_def)
qed

theorem penalties_after_selection_witness:
  "ExperienceLevel seniorEmpty = ExpSenior \<and> DevScore stackDims = 9 \<and> DIYScore stackDims = 9 \<and>
   selectBest (NewEngine [stackDistro 10 6]) stackDims seniorEmpty =
     \<lparr>distro = stackDistro 10 6, matchScore = 31 / 40\<rparr> \<and>
   DevFocus (stackDistro 10 6) = 6 \<and> Easy (stackDistro 10 6) = 10 \<and>
   matchScore (findBestMatch (NewEngine [stackDistro 10 6]) stackDims seniorEmpty) =
     31 / 40 * (85 / 100) * (90 / 100) \<and>
   matchScore (findBestMatch (NewEngine [stackDistro 5 6]) stackDims seniorEmpty) =
     31 / 40 * (85 / 100) \<and>
   matchScore (findBestMatch (NewEngine [stackDistro 10 9]) stackDims seniorEmpty) =
     41 / 50 * (90 / 100) \<and>
   matchScore (findBestMatch (NewEngine [stackDistro 5 9]) stackDims seniorEmpty) = 41 / 50 \<and>
   ExperienceLevel emptySignals \<noteq> ExpSenior \<and>
   matchScore (findBestMatch (NewEngine [stackDistro 10 6]) stackDims emptySignals) = 31 / 40"
  using penalties_after_selection [of "NewEngine [stackDistro 10 6]" stackDims seniorEmpty]
    penalties_after_selection [of "NewEngine [stackDistro 5 6]" stackDims seniorEmpty]
    penalties_after_selection [of "NewEngine [stackDistro 10 9]" stackDims seniorEmpty]
    penalties_after_selection [of "NewEngine [stackDistro 5 9]" stackDims seniorEmpty]
    penalties_after_selection [of "NewEngine [stackDistro 10 6]" stackDims emptySignals]
  by (simp add: selectBest_stack_6 selectBest_stack_9 stack_fields)

text \<open>
  C9. The loop selects a candidate only when its composite is strictly greater than the
  best so far, which starts at 0: when every candidate that passes the senior filter has
  the composite 0, or none passes, Score returns the zero-valued match, with an empty
  BestDistroID and BestDistroName and the confidence 0, even when such candidates exist.
\<close>

theorem zero_composite_never_selected:
  assumes "\<forall>d \<in> set (distros e).
             \<not> (ExperienceLevel signals = ExpSenior \<and> Popularity d < 500) \<longrightarrow>
             finalScore (calculateDimensions toLower e signals) d = 0"
  shows "selectBest e (calculateDimensions toLower e signals) signals = zeroMatchResult \<and>
         findBestMatch e (calculateDimensions toLower e signals) signals = zeroMatchResult \<and>
         BestDistroID (Score toLower e signals) = [] \<and>
         BestDistroName (Score toLower e signals) = [] \<and>
         Confidence (Result (Score toLower e signals)) = 0"
proof -
  let ?dims = "calculateDimensions toLower e signals"
  have "selectBest e ?dims signals = zeroMatchResult"
    by (rule selectBest_zero) (use assms in \<open>simp add: eligible_def\<close>)
  moreover from this have m: "findBestMatch e ?dims signals = zeroMatchResult"
    by (rule findBestMatch_zero)
  moreover have "ID (distro zeroMatchResult) = []" "Name (distro zeroMatchResult) = []"
    "matchScore zeroMatchResult = 0"
    by (simp_all add: zeroMatchResult_def zeroDistro_def)
  ultimately show ?thesis
    by (simp add: Score_def Let_def)
qed

theorem zero_composite_never_selected_witness:
  "oppositeDistro \<in> set (distros (NewEngine [oppositeDistro])) \<and>
   \<not> (ExperienceLevel maximalist = ExpSenior \<and> Popularity oppositeDistro < 500) \<and>
   finalScore (calculateDimensions asciiToLower (NewEngine [oppositeDistro]) maximalist)
     oppositeDistro = 0 \<and>
   findBestMatch (NewEngine [oppositeDistro])
     (calculateDimensions asciiToLower (NewEngine [oppositeDistro]) maximalist) maximalist =
     zeroMatchResult \<and>
   BestDistroID (Score asciiToLower (NewEngine [oppositeDistro]) maximalist) = [] \<and>
   BestDistroName (Score asciiToLower (NewEngine [oppositeDistro]) maximalist) = [] \<and>
   Confidence (Result (Score asciiToLower (NewEngine [oppositeDistro]) maximalist)) = 0"
proof -
  let ?e = "NewEngine [oppositeDistro]"
  have ns: "ExperienceLevel maximalist \<noteq> ExpSenior"
    by (simp add: maximalist_def ExpMid_def ExpSenior_def)
  have z: "finalScore (calculateDimensions asciiToLower ?e maximalist) oppositeDistro = 0"
    by (simp add: maximalist_dims finalScore_opposite)
  have h: "\<forall>d \<in> set (distros ?e).
             \<not> (ExperienceLevel maximalist = ExpSenior \<and> Popularity d < 500) \<longrightarrow>
             finalScore (calculateDimensions asciiToLower ?e maximalist) d = 0"
    by (simp add: NewEngine_def maximalist_dims finalScore_opposite)
  have i: "oppositeDistro \<in> set (distros ?e)" by (simp add: NewEngine_def)
  show ?thesis
    using ns z i zero_composite_never_selected [OF h] by simp
qed

text \<open>
  C1 asks that an empty candidate set after the senior popularity filter be handled
  explicitly and never yield a zero-valued match. The code has no such handling: for a
  senior profile and the catalog of Arch Linux and Gentoo, both below 500, Score returns
  the zero-valued match.
\<close>

theorem Score_senior_all_obscure:
  "Popularity arch < 500 \<and> Popularity gentoo < 500 \<and>
   Score asciiToLower (NewEngine [arch, gentoo]) seniorEmpty =
     \<lparr>Result = \<lparr>ScoreValue = 0, Category = FitNone, Confidence = 0\<rparr>,
      BestDistroID = [], BestDistroName = []\<rparr>"
proof -
  let ?e = "NewEngine [arch, gentoo]"
  let ?dims = "\<lparr>RollingScore = 6, DIYScore = 5, PerformanceScore = 3, DevScore = 5\<rparr>"
  have p: "Popularity arch < 500" "Popularity gentoo < 500"
    by (simp_all add: arch_def gentoo_def mkDistro_def)
  have s: "ExperienceLevel seniorEmpty = ExpSenior" by (simp add: seniorEmpty_def)
  have "selectBest ?e ?dims seniorEmpty = zeroMatchResult"
    by (rule selectBest_zero) (simp add: NewEngine_def eligible_def p s)
  then have m: "findBestMatch ?e ?dims seniorEmpty = zeroMatchResult"
    by (simp add: findBestMatch_def applyPenalties_def s zeroMatchResult_def zeroDistro_def)
  have "calculateFinalScore ?e zeroMatchResult ?dims seniorEmpty = 0"
    by (simp add: calculateFinalScore_def baseScore_def Round_def adjustment_def abs_go_def
        clamp_def zeroMatchResult_def zeroDistro_def s ExpSenior_def ExpJunior_def TrendDown_def)
  then show ?thesis using p
    by (simp add: Score_def Let_def seniorEmpty_dims m determineCategory_def
        zeroMatchResult_def zeroDistro_def)
qed


end
